theory Spec2Isabelle
  imports Main "HOL-Library.Word" "HOL-Library.AList" "HOL-Library.Multiset"
begin

unbundle bit_operations_syntax

section \<open>Values shared by the services\<close>

text \<open>
  Times are JavaScript time values: whole milliseconds since the epoch, as returned by
  \<^verbatim>\<open>Date.now()\<close> and \<^verbatim>\<open>Date.prototype.getTime()\<close>. They are modelled as
  \<^typ>\<open>int\<close>; a \<^verbatim>\<open>Date\<close> object is represented by its time value.
\<close>

datatype presence_state = Active | Idle | Stale

text \<open>Values that the modelled code can throw.\<close>

datatype exn = SecurityError | QuotaExceededError | TypeError | Rejection string

text \<open>How an awaited promise settles: with a value, or rejected with an error message.\<close>

datatype 'a settled = Fulfilled 'a | Rejected string

text \<open>
  The object a Supabase query resolves to. The error object is represented by its
  \<^verbatim>\<open>message\<close>; \<^verbatim>\<open>null\<close> is \<^const>\<open>None\<close>.
\<close>

record 'd PostgrestResponse =
  data :: "'d option"
  error :: "string option"

text \<open>Lines written to the console, in order.\<close>

datatype console_entry =
    Log string
  | LogTransition presence_state presence_state
  | LogTabsFetched nat
  | LogError string string

section \<open>The shared table \<^verbatim>\<open>user_tabs\<close>\<close>

text \<open>
  The object literal handed to \<^verbatim>\<open>upsert\<close> has the first six columns; a row read
  back (interface \<^verbatim>\<open>Tab\<close>) has \<^verbatim>\<open>created_at\<close> as well.
\<close>

record presence_row =
  user_id :: string
  device_id :: string
  tab_id :: string
  user_agent :: string
  is_active :: bool
  last_seen :: string

record Tab = presence_row +
  created_at :: string

record GroupedTabs =
  deviceId :: string
  tabs :: "Tab list"

section \<open>The browser: Web Storage, random numbers, user agent\<close>

text \<open>
  A Web Storage area. When access to storage is denied every operation throws a
  \<^verbatim>\<open>SecurityError\<close>; when no quota is available reads work and \<^verbatim>\<open>setItem\<close>
  throws a \<^verbatim>\<open>QuotaExceededError\<close>.
\<close>

datatype storage_status = Available | QuotaExceeded | AccessDenied

record storage =
  status :: storage_status
  items :: "string \<rightharpoonup> string"

definition getItem :: "string \<Rightarrow> storage \<Rightarrow> exn + string option" where
  "getItem key st =
     (case status st of
        AccessDenied \<Rightarrow> Inl SecurityError
      | _ \<Rightarrow> Inr (items st key))"

definition setItem :: "string \<Rightarrow> string \<Rightarrow> storage \<Rightarrow> exn + storage" where
  "setItem key v st =
     (case status st of
        Available \<Rightarrow> Inr (st\<lparr>items := (items st)(key \<mapsto> v)\<rparr>)
      | QuotaExceeded \<Rightarrow> Inl QuotaExceededError
      | AccessDenied \<Rightarrow> Inl SecurityError)"

text \<open>
  \<^verbatim>\<open>Math_random b i\<close> is the value of \<^verbatim>\<open>Math.random() * 16 | 0\<close> at the
  \<open>i\<close>-th coming call: a number from 0 to 15.
\<close>

record browser =
  localStorage :: storage
  sessionStorage :: storage
  navigator_userAgent :: string
  Math_random :: "nat \<Rightarrow> 4 word"

section \<open>SessionService\<close>

definition hexdigit :: "4 word \<Rightarrow> char" where
  "hexdigit v = ''0123456789abcdef'' ! unat v"

text \<open>
  \<^verbatim>\<open>template.replace(/[xy]/g, callback)\<close>: every \<^verbatim>\<open>x\<close> and \<^verbatim>\<open>y\<close> is replaced,
  from left to right, by the digit the callback computes from a new random number.
\<close>

fun replace_xy :: "(nat \<Rightarrow> 4 word) \<Rightarrow> nat \<Rightarrow> string \<Rightarrow> string" where
  "replace_xy rnd i [] = []"
| "replace_xy rnd i (c # cs) =
     (if c = CHR ''x'' \<or> c = CHR ''y'' then
        (let r = rnd i;
             v = (if c = CHR ''x'' then r else (r AND 3) OR 8)
         in hexdigit v # replace_xy rnd (Suc i) cs)
      else c # replace_xy rnd i cs)"

definition uuid_template :: string where
  "uuid_template = ''xxxxxxxx-xxxx-4xxx-yxxx-xxxxxxxxxxxx''"

definition generateUUID :: "browser \<Rightarrow> string \<times> browser" where
  "generateUUID b =
     (replace_xy (Math_random b) 0 uuid_template,
      b\<lparr>Math_random := (\<lambda>i. Math_random b (i + 31))\<rparr>)"

text \<open>\<^verbatim>\<open>!id\<close> for a value of type \<^verbatim>\<open>string | null\<close>: true for null and for the empty string.\<close>

definition falsy :: "string option \<Rightarrow> bool" where
  "falsy v = (case v of None \<Rightarrow> True | Some s \<Rightarrow> s = [])"

text \<open>
  Both functions return the identifier, or the exception thrown by the storage area,
  together with the browser as they leave it.
\<close>

definition getOrCreateDeviceId :: "browser \<Rightarrow> (exn + string) \<times> browser" where
  "getOrCreateDeviceId b =
     (let key = ''deviceId'' in
      case getItem key (localStorage b) of
        Inl e \<Rightarrow> (Inl e, b)
      | Inr stored \<Rightarrow>
          if falsy stored then
            (let (fresh, b1) = generateUUID b in
             case setItem key fresh (localStorage b1) of
               Inl e \<Rightarrow> (Inl e, b1)
             | Inr ls \<Rightarrow> (Inr fresh, b1\<lparr>localStorage := ls\<rparr>))
          else (Inr (the stored), b))"

definition getOrCreateTabId :: "browser \<Rightarrow> (exn + string) \<times> browser" where
  "getOrCreateTabId b =
     (let key = ''tabId'' in
      case getItem key (sessionStorage b) of
        Inl e \<Rightarrow> (Inl e, b)
      | Inr stored \<Rightarrow>
          if falsy stored then
            (let (fresh, b1) = generateUUID b in
             case setItem key fresh (sessionStorage b1) of
               Inl e \<Rightarrow> (Inl e, b1)
             | Inr ss \<Rightarrow> (Inr fresh, b1\<lparr>sessionStorage := ss\<rparr>))
          else (Inr (the stored), b))"

definition getUserAgent :: "browser \<Rightarrow> string" where
  "getUserAgent b = navigator_userAgent b"

section \<open>PresenceService\<close>

record TabPresence =
  userId :: string
  deviceId :: string
  tabId :: string
  isActive :: bool
  lastSeen :: int
  userAgent :: string
  state :: presence_state

text \<open>
  The fields of the service, the browser it runs in, the console, and the rows it has
  handed to \<^verbatim>\<open>upsert\<close> on table \<^verbatim>\<open>user_tabs\<close>, oldest first. \<open>heartbeats\<close>
  counts the live subscriptions to \<^verbatim>\<open>interval(heartbeatInterval)\<close>.
\<close>

record PresenceService =
  tabPresenceSubject :: "TabPresence option"
  isTabActiveSubject :: bool
  lastActivityTime :: int
  heartbeats :: nat
  window :: browser
  console :: "console_entry list"
  upserts :: "presence_row list"

definition heartbeatInterval :: int where
  "heartbeatInterval = 30000"

definition idleTimeout :: int where
  "idleTimeout = 5 * 60 * 1000"

definition staleTimeout :: int where
  "staleTimeout = 30 * 60 * 1000"

text \<open>The field initialisers; \<open>now\<close> is \<^verbatim>\<open>Date.now()\<close> at construction.\<close>

definition new_PresenceService :: "int \<Rightarrow> browser \<Rightarrow> PresenceService" where
  "new_PresenceService now b =
     \<lparr>tabPresenceSubject = None, isTabActiveSubject = True, lastActivityTime = now,
      heartbeats = 0, window = b, console = [], upserts = []\<rparr>"

subsection \<open>Activity tracking\<close>

datatype visibilityState = Visible | Hidden

datatype activity_event =
    Focus | Blur | VisibilityChange visibilityState
  | MouseDown | KeyDown | TouchStart

text \<open>
  The listeners registered by \<^verbatim>\<open>setupActivityTracking\<close>; \<open>now\<close> is \<^verbatim>\<open>Date.now()\<close>
  when the event is delivered.
\<close>

fun on_event :: "int \<Rightarrow> activity_event \<Rightarrow> PresenceService \<Rightarrow> PresenceService" where
  "on_event now Focus s =
     s\<lparr>isTabActiveSubject := True, lastActivityTime := now,
       console := console s @ [Log ''[Presence] Tab focused - isActive=true'']\<rparr>"
| "on_event now Blur s =
     s\<lparr>isTabActiveSubject := False,
       console := console s @ [Log ''[Presence] Tab blurred - isActive=false'']\<rparr>"
| "on_event now (VisibilityChange v) s =
     (if v = Visible then
        s\<lparr>isTabActiveSubject := True, lastActivityTime := now,
          console := console s @ [Log ''[Presence] Document visible - isActive=true'']\<rparr>
      else
        s\<lparr>isTabActiveSubject := False,
          console := console s @ [Log ''[Presence] Document hidden - isActive=false'']\<rparr>)"
| "on_event now MouseDown s = s\<lparr>lastActivityTime := now\<rparr>"
| "on_event now KeyDown s = s\<lparr>lastActivityTime := now\<rparr>"
| "on_event now TouchStart s = s\<lparr>lastActivityTime := now\<rparr>"

text \<open>A sequence of events, each with its delivery time, handled in order.\<close>

fun on_events :: "(int \<times> activity_event) list \<Rightarrow> PresenceService \<Rightarrow> PresenceService" where
  "on_events [] s = s"
| "on_events ((now, e) # es) s = on_events es (on_event now e s)"

subsection \<open>The state machine\<close>

text \<open>
  \<open>now\<close> is the value of \<^verbatim>\<open>Date.now()\<close> and \<open>seen\<close> the time value of the
  \<^verbatim>\<open>new Date()\<close> taken a few lines later in the same call.
\<close>

definition updatePresenceState :: "int \<Rightarrow> int \<Rightarrow> PresenceService \<Rightarrow> PresenceService" where
  "updatePresenceState now seen s =
     (case tabPresenceSubject s of
        None \<Rightarrow> s
      | Some presence \<Rightarrow>
          (let timeSinceLastActivity = now - lastActivityTime s;
               isCurrentlyActive = isTabActiveSubject s;
               st = (if timeSinceLastActivity > staleTimeout then Stale
                     else if timeSinceLastActivity > idleTimeout \<or> \<not> isCurrentlyActive then Idle
                     else Active);
               oldState = state presence;
               updatedPresence = presence\<lparr>isActive := isCurrentlyActive, lastSeen := seen, state := st\<rparr>;
               s1 = (if oldState \<noteq> st
                     then s\<lparr>console := console s @ [LogTransition oldState st]\<rparr>
                     else s)
           in s1\<lparr>tabPresenceSubject := Some updatedPresence\<rparr>))"

subsection \<open>Writing the record to the shared table\<close>

text \<open>
  \<open>toISOString\<close> is \<^verbatim>\<open>Date.prototype.toISOString\<close>; \<open>outcome\<close> is how the awaited
  \<^verbatim>\<open>upsert\<close> settles. The result says whether the promise of \<^verbatim>\<open>upsertPresence\<close>
  is fulfilled (\<^const>\<open>None\<close>) or rejected. The code after the \<^verbatim>\<open>await\<close> only writes
  to the console, so running it at once gives the same service state as running it later.
\<close>

definition upsertPresence ::
  "(int \<Rightarrow> string) \<Rightarrow> unit PostgrestResponse settled \<Rightarrow> PresenceService
     \<Rightarrow> exn option \<times> PresenceService" where
  "upsertPresence toISOString outcome s =
     (case tabPresenceSubject s of
        None \<Rightarrow> (None, s)
      | Some presence \<Rightarrow>
          (let row = \<lparr>user_id = userId presence,
                      device_id = deviceId presence,
                      tab_id = tabId presence,
                      user_agent = userAgent presence,
                      is_active = isActive presence,
                      last_seen = toISOString (lastSeen presence)\<rparr>;
               s1 = s\<lparr>upserts := upserts s @ [row]\<rparr>
           in case outcome of
                Rejected m \<Rightarrow> (Some (Rejection m), s1)
              | Fulfilled r \<Rightarrow>
                  (case error r of
                     Some e \<Rightarrow>
                       (None, s1\<lparr>console := console s1 @ [LogError ''Failed to upsert presence:'' e]\<rparr>)
                   | None \<Rightarrow> (None, s1))))"

subsection \<open>Heartbeat\<close>

definition startHeartbeat :: "PresenceService \<Rightarrow> PresenceService" where
  "startHeartbeat s = s\<lparr>heartbeats := heartbeats s + 1\<rparr>"

text \<open>
  The subscriber of the interval: what one tick does, and how the promise of the
  \<^verbatim>\<open>async\<close> callback settles.
\<close>

definition heartbeat_tick ::
  "(int \<Rightarrow> string) \<Rightarrow> int \<Rightarrow> int \<Rightarrow> unit PostgrestResponse settled \<Rightarrow> PresenceService
     \<Rightarrow> exn option \<times> PresenceService" where
  "heartbeat_tick toISOString now seen outcome s =
     upsertPresence toISOString outcome (updatePresenceState now seen s)"

subsection \<open>Initialisation\<close>

text \<open>
  \<open>seen\<close> is the time value of \<^verbatim>\<open>new Date()\<close>. \<^verbatim>\<open>upsertPresence()\<close> is called
  without \<^verbatim>\<open>await\<close>, so a rejection of its promise is not observed here. The
  subscribers of \<^verbatim>\<open>tabPresence$\<close> live in other classes and do not write to this
  service.
\<close>

definition initializePresence ::
  "(int \<Rightarrow> string) \<Rightarrow> int \<Rightarrow> unit PostgrestResponse settled \<Rightarrow> string \<Rightarrow> PresenceService
     \<Rightarrow> exn option \<times> PresenceService" where
  "initializePresence toISOString seen outcome uid s =
     (case getOrCreateDeviceId (window s) of
        (Inl e, b1) \<Rightarrow> (Some e, s\<lparr>window := b1\<rparr>)
      | (Inr did, b1) \<Rightarrow>
          (case getOrCreateTabId b1 of
             (Inl e, b2) \<Rightarrow> (Some e, s\<lparr>window := b2\<rparr>)
           | (Inr tid, b2) \<Rightarrow>
               (let ua = getUserAgent b2;
                    presence = \<lparr>userId = uid, deviceId = did, tabId = tid, isActive = True,
                                lastSeen = seen, userAgent = ua, state = Active\<rparr>;
                    s3 = s\<lparr>window := b2, tabPresenceSubject := Some presence\<rparr>;
                    s4 = snd (upsertPresence toISOString outcome s3)
                in (None, startHeartbeat s4))))"

subsection \<open>Runs of the service\<close>

text \<open>
  What happens to a service after construction: an activity event is delivered, or the
  interval fires. The interval fires only while a subscription is alive; the value the
  subscriber returns (the promise of the tick) is ignored by the interval.
\<close>

datatype action =
    Activity int activity_event
  | Heartbeat int int "unit PostgrestResponse settled"

fun step :: "(int \<Rightarrow> string) \<Rightarrow> action \<Rightarrow> PresenceService \<Rightarrow> PresenceService" where
  "step toISOString (Activity now e) s = on_event now e s"
| "step toISOString (Heartbeat now seen outcome) s =
     (if heartbeats s > 0 then snd (heartbeat_tick toISOString now seen outcome s) else s)"

fun run :: "(int \<Rightarrow> string) \<Rightarrow> action list \<Rightarrow> PresenceService \<Rightarrow> PresenceService" where
  "run toISOString [] s = s"
| "run toISOString (a # as) s = run toISOString as (step toISOString a s)"

section \<open>TabsStore\<close>

text \<open>
  The three signals, the console, and the user ids for which a \<^verbatim>\<open>select\<close> on
  \<^verbatim>\<open>user_tabs\<close> has been issued, oldest first; then the two private fields:
  \<open>store_userId\<close> is the field \<^verbatim>\<open>userId\<close>, and \<open>pollingInterval\<close> is
  \<^const>\<open>None\<close> for \<^verbatim>\<open>null\<close> and otherwise names the user the live interval polls for.
\<close>

record TabsStore =
  allTabsSignal :: "Tab list"
  isLoadingSignal :: bool
  errorSignal :: "string option"
  store_console :: "console_entry list"
  selects :: "string list"
  store_userId :: "string option"
  pollingInterval :: "string option"

definition new_TabsStore :: TabsStore where
  "new_TabsStore =
     \<lparr>allTabsSignal = [], isLoadingSignal = False, errorSignal = None,
      store_console = [], selects = [], store_userId = None, pollingInterval = None\<rparr>"

subsection \<open>fetchTabs\<close>

text \<open>
  \<^verbatim>\<open>fetchTabs\<close> runs in two parts: up to the \<^verbatim>\<open>await\<close> of the query, and, once the
  query has settled, from there to the end. Other callbacks may run in between.
  \<open>fetchTabs_begin\<close> returns \<^const>\<open>True\<close> when a query is now in flight.
\<close>

definition fetchTabs_begin :: "string \<Rightarrow> TabsStore \<Rightarrow> bool \<times> TabsStore" where
  "fetchTabs_begin uid st =
     (if uid = [] then
        (False, st\<lparr>errorSignal := Some ''No user ID provided''\<rparr>)
      else
        (True, st\<lparr>isLoadingSignal := True, errorSignal := None, selects := selects st @ [uid]\<rparr>))"

definition fetchTabs_settle ::
  "(Tab list) PostgrestResponse settled \<Rightarrow> TabsStore \<Rightarrow> TabsStore" where
  "fetchTabs_settle outcome st =
     (let st1 =
        (case outcome of
           Fulfilled r \<Rightarrow>
             (case error r of
                Some m \<Rightarrow>
                  st\<lparr>errorSignal := Some m,
                     store_console := store_console st @ [LogError ''Failed to fetch tabs:'' m]\<rparr>
              | None \<Rightarrow>
                  (case data r of
                     Some d \<Rightarrow>
                       st\<lparr>allTabsSignal := d,
                          store_console := store_console st @ [LogTabsFetched (length d)]\<rparr>
                   | None \<Rightarrow> st))
         | Rejected m \<Rightarrow>
             st\<lparr>errorSignal := Some m,
                store_console := store_console st @ [LogError ''Error fetching tabs:'' m]\<rparr>)
      in st1\<lparr>isLoadingSignal := False\<rparr>)"

text \<open>A fetch with nothing running in between its two parts.\<close>

definition fetchTabs ::
  "string \<Rightarrow> (Tab list) PostgrestResponse settled \<Rightarrow> TabsStore \<Rightarrow> TabsStore" where
  "fetchTabs uid outcome st =
     (case fetchTabs_begin uid st of
        (False, st1) \<Rightarrow> st1
      | (True, st1) \<Rightarrow> fetchTabs_settle outcome st1)"

subsection \<open>Polling and initializeTabs\<close>

definition stopPolling :: "TabsStore \<Rightarrow> TabsStore" where
  "stopPolling st =
     (case pollingInterval st of
        Some u \<Rightarrow> st\<lparr>pollingInterval := None\<rparr>
      | None \<Rightarrow> st)"

definition startPolling :: "string \<Rightarrow> TabsStore \<Rightarrow> TabsStore" where
  "startPolling uid st = (stopPolling st)\<lparr>pollingInterval := Some uid\<rparr>"

text \<open>
  \<^verbatim>\<open>initializeTabs\<close> awaits \<^verbatim>\<open>fetchTabs\<close>, so it runs in two parts as well: up to
  the \<^verbatim>\<open>await\<close> inside \<^verbatim>\<open>fetchTabs\<close> (or to its early return), and from there to
  the end. \<open>pending\<close> says whether a query was in flight.
\<close>

definition initializeTabs_begin :: "string \<Rightarrow> TabsStore \<Rightarrow> bool \<times> TabsStore" where
  "initializeTabs_begin uid st = fetchTabs_begin uid (st\<lparr>store_userId := Some uid\<rparr>)"

definition initializeTabs_resume ::
  "string \<Rightarrow> bool \<Rightarrow> (Tab list) PostgrestResponse settled \<Rightarrow> TabsStore \<Rightarrow> TabsStore" where
  "initializeTabs_resume uid pending outcome st =
     startPolling uid (if pending then fetchTabs_settle outcome st else st)"

definition initializeTabs ::
  "string \<Rightarrow> (Tab list) PostgrestResponse settled \<Rightarrow> TabsStore \<Rightarrow> TabsStore" where
  "initializeTabs uid outcome st =
     (case initializeTabs_begin uid st of
        (pending, st1) \<Rightarrow> initializeTabs_resume uid pending outcome st1)"

text \<open>
  The subscriber to \<^verbatim>\<open>tabPresence$\<close> set up in the constructor, up to the
  \<^verbatim>\<open>await\<close> inside \<^verbatim>\<open>fetchTabs\<close>. A null record and a null or empty
  \<^verbatim>\<open>userId\<close> are falsy.
\<close>

definition on_tabPresence :: "TabPresence option \<Rightarrow> TabsStore \<Rightarrow> TabsStore" where
  "on_tabPresence presence st =
     (case presence of
        None \<Rightarrow> st
      | Some p \<Rightarrow>
          (case store_userId st of
             None \<Rightarrow> st
           | Some u \<Rightarrow> if u = [] then st else snd (fetchTabs_begin u st)))"

subsection \<open>getTabState\<close>

text \<open>
  \<open>parse\<close> is \<^verbatim>\<open>new Date(string).getTime()\<close>, with \<^const>\<open>None\<close> for \<^verbatim>\<open>NaN\<close>
  (an invalid date); \<open>now\<close> is the time value of \<^verbatim>\<open>new Date()\<close>. Every comparison
  with \<^verbatim>\<open>NaN\<close> is false.
\<close>

definition getTabState ::
  "(string \<Rightarrow> int option) \<Rightarrow> int \<Rightarrow> 'a Tab_scheme \<Rightarrow> presence_state" where
  "getTabState parse now tab =
     (case parse (last_seen tab) of
        None \<Rightarrow> Active
      | Some lastSeenMs \<Rightarrow>
          (let diffMs = now - lastSeenMs in
           if diffMs > 30 * 60 * 1000 then Stale
           else if diffMs > 5 * 60 * 1000 then Idle
           else Active))"

subsection \<open>groupedTabs\<close>

text \<open>
  A JavaScript \<^verbatim>\<open>Map\<close> keeps its entries in insertion order: it is a list of
  key-value pairs with distinct keys. \<^verbatim>\<open>set\<close> on a new key appends an entry, and on
  an old key replaces the value in place (\<^const>\<open>AList.update\<close>).
\<close>

type_synonym ('k, 'v) js_map = "('k \<times> 'v) list"

definition map_has :: "'k \<Rightarrow> ('k, 'v) js_map \<Rightarrow> bool" where
  "map_has k m = (map_of m k \<noteq> None)"

definition map_get :: "'k \<Rightarrow> ('k, 'v) js_map \<Rightarrow> 'v option" where
  "map_get k m = map_of m k"

definition map_set :: "'k \<Rightarrow> 'v \<Rightarrow> ('k, 'v) js_map \<Rightarrow> ('k, 'v) js_map" where
  "map_set k v m = AList.update k v m"

text \<open>
  The body of the \<^verbatim>\<open>forEach\<close>. \<^verbatim>\<open>grouped.get(id)!.push(tab)\<close> appends to the array
  stored in the map, and throws a \<^verbatim>\<open>TypeError\<close> if there is none.
\<close>

definition group_tab :: "Tab \<Rightarrow> (string, Tab list) js_map \<Rightarrow> exn + (string, Tab list) js_map" where
  "group_tab tab grouped =
     (let g1 = (if \<not> map_has (device_id tab) grouped
                then map_set (device_id tab) [] grouped
                else grouped)
      in case map_get (device_id tab) g1 of
           None \<Rightarrow> Inl TypeError
         | Some arr \<Rightarrow> Inr (map_set (device_id tab) (arr @ [tab]) g1))"

fun group_all :: "Tab list \<Rightarrow> (string, Tab list) js_map \<Rightarrow> exn + (string, Tab list) js_map" where
  "group_all [] grouped = Inr grouped"
| "group_all (tab # rest) grouped =
     (case group_tab tab grouped of
        Inl e \<Rightarrow> Inl e
      | Inr g \<Rightarrow> group_all rest g)"

definition groupedTabs :: "TabsStore \<Rightarrow> exn + GroupedTabs list" where
  "groupedTabs st =
     (case group_all (allTabsSignal st) [] of
        Inl e \<Rightarrow> Inl e
      | Inr grouped \<Rightarrow>
          Inr (map (\<lambda>(d, ts). \<lparr>GroupedTabs.deviceId = d, tabs = ts\<rparr>) grouped))"

section \<open>DashboardComponent\<close>

text \<open>
  The value of \<^verbatim>\<open>currentUser$\<close> is \<^verbatim>\<open>null\<close> (\<^const>\<open>None\<close>) or the user object
  of the identity provider; \<open>ident\<close> is its field \<^verbatim>\<open>id\<close>.
\<close>

record User =
  ident :: string

record Dashboard =
  presenceService :: PresenceService
  tabsStore :: TabsStore
  currentTabId :: string

text \<open>
  The subscriber to \<^verbatim>\<open>currentUser$\<close> registered in \<^verbatim>\<open>ngOnInit\<close>, up to the point
  where it returns: \<^verbatim>\<open>if (user) { initializePresence(user.id); initializeTabs(user.id) }\<close>.
  When \<^verbatim>\<open>initializePresence\<close> publishes the new record, the subscribers to
  \<^verbatim>\<open>tabPresence$\<close> run: the one of the store, and the one of the dashboard, which
  copies the tab id. An exception thrown by \<^verbatim>\<open>initializePresence\<close> leaves the
  subscriber before anything is published and before \<^verbatim>\<open>initializeTabs\<close> is called.
\<close>

definition on_currentUser ::
  "(int \<Rightarrow> string) \<Rightarrow> int \<Rightarrow> unit PostgrestResponse settled \<Rightarrow> User option \<Rightarrow> Dashboard
     \<Rightarrow> exn option \<times> Dashboard" where
  "on_currentUser toISOString seen outcome user app =
     (case user of
        None \<Rightarrow> (None, app)
      | Some u \<Rightarrow>
          (case initializePresence toISOString seen outcome (ident u) (presenceService app) of
             (Some e, ps) \<Rightarrow> (Some e, app\<lparr>presenceService := ps\<rparr>)
           | (None, ps) \<Rightarrow>
               (let st1 = on_tabPresence (tabPresenceSubject ps) (tabsStore app);
                    tab = (case tabPresenceSubject ps of
                             Some p \<Rightarrow> tabId p
                           | None \<Rightarrow> currentTabId app);
                    st2 = snd (initializeTabs_begin (ident u) st1)
                in (None, app\<lparr>presenceService := ps, tabsStore := st2, currentTabId := tab\<rparr>))))"

section \<open>Vocabulary of the properties\<close>

text \<open>
  The distinct elements of a list in the order of their first occurrence: a scan from
  the left that keeps each element it has not met before.
\<close>

definition first_seen :: "'a list \<Rightarrow> 'a list" where
  "first_seen xs = foldl (\<lambda>acc x. if x \<in> set acc then acc else acc @ [x]) [] xs"

text \<open>
  The partition of a list of rows by \<^verbatim>\<open>device_id\<close>: one entry for each device, in
  first-occurrence order, holding the rows of that device in their order in the list.
\<close>

definition groups_of :: "Tab list \<Rightarrow> (string, Tab list) js_map" where
  "groups_of ts =
     map (\<lambda>d. (d, filter (\<lambda>t. device_id t = d) ts)) (first_seen (map device_id ts))"

text \<open>Two presence records that name the same user, device, tab and user agent.\<close>

definition same_identity :: "TabPresence \<Rightarrow> TabPresence \<Rightarrow> bool" where
  "same_identity p q \<longleftrightarrow>
     userId p = userId q \<and> deviceId p = deviceId q \<and> tabId p = tabId q \<and>
     userAgent p = userAgent q"

section \<open>Example inputs\<close>

text \<open>A browser with empty, working storage; the random numbers are 0, 1, 2, ...\<close>

definition example_browser :: browser where
  "example_browser =
     \<lparr>localStorage = \<lparr>status = Available, items = Map.empty\<rparr>,
      sessionStorage = \<lparr>status = Available, items = Map.empty\<rparr>,
      navigator_userAgent = ''Mozilla/5.0'',
      Math_random = (\<lambda>i. word_of_nat i)\<rparr>"

text \<open>The same browser with access to storage denied, and with no quota for writes.\<close>

definition denied_browser :: browser where
  "denied_browser =
     \<lparr>localStorage = \<lparr>status = AccessDenied, items = Map.empty\<rparr>,
      sessionStorage = \<lparr>status = AccessDenied, items = Map.empty\<rparr>,
      navigator_userAgent = ''Mozilla/5.0'',
      Math_random = (\<lambda>i. word_of_nat i)\<rparr>"

definition full_browser :: browser where
  "full_browser =
     \<lparr>localStorage = \<lparr>status = QuotaExceeded, items = Map.empty\<rparr>,
      sessionStorage = \<lparr>status = QuotaExceeded, items = Map.empty\<rparr>,
      navigator_userAgent = ''Mozilla/5.0'',
      Math_random = (\<lambda>i. word_of_nat i)\<rparr>"

text \<open>A browser whose storage accepts no write and holds identifiers from an earlier visit.\<close>

definition revisited_browser :: browser where
  "revisited_browser =
     \<lparr>localStorage =
        \<lparr>status = QuotaExceeded,
         items = [''deviceId'' \<mapsto> ''01234567-89ab-4cde-b012-3456789abcde'']\<rparr>,
      sessionStorage =
        \<lparr>status = QuotaExceeded,
         items = [''tabId'' \<mapsto> ''f0123456-789a-4bcd-af01-23456789abcd'']\<rparr>,
      navigator_userAgent = ''Mozilla/5.0'',
      Math_random = (\<lambda>i. word_of_nat i)\<rparr>"

text \<open>\<^verbatim>\<open>toISOString\<close> and its inverse on the instants the examples use.\<close>

definition example_toISOString :: "int \<Rightarrow> string" where
  "example_toISOString t =
     (if t = 0 then ''1970-01-01T00:00:00.000Z''
      else if t = 30000 then ''1970-01-01T00:00:30.000Z''
      else if t = 60000 then ''1970-01-01T00:01:00.000Z''
      else if t = 1860000 then ''1970-01-01T00:31:00.000Z''
      else [])"

definition example_parse :: "string \<Rightarrow> int option" where
  "example_parse str =
     (if str = ''1970-01-01T00:00:00.000Z'' then Some 0
      else if str = ''1970-01-01T00:00:30.000Z'' then Some 30000
      else if str = ''1970-01-01T00:01:00.000Z'' then Some 60000
      else if str = ''1970-01-01T00:31:00.000Z'' then Some 1860000
      else None)"

definition ok_response :: "unit PostgrestResponse" where
  "ok_response = \<lparr>data = None, error = None\<rparr>"

definition failed_response :: "unit PostgrestResponse" where
  "failed_response = \<lparr>data = None, error = Some ''TypeError: Failed to fetch''\<rparr>"

text \<open>A service constructed at time 0 whose presence was initialised for a user at once.\<close>

definition example_started :: PresenceService where
  "example_started =
     snd (initializePresence example_toISOString 0 (Fulfilled ok_response) ''user-1''
            (new_PresenceService 0 example_browser))"

definition example_presence :: TabPresence where
  "example_presence =
     \<lparr>userId = ''user-1'', deviceId = ''01234567-89ab-4cde-b012-3456789abcde'',
      tabId = ''f0123456-789a-4bcd-af01-23456789abcd'', isActive = True, lastSeen = 0,
      userAgent = ''Mozilla/5.0'', state = Active\<rparr>"

text \<open>A dashboard over a new presence service and a new store, before any user is known.\<close>

definition example_dashboard :: Dashboard where
  "example_dashboard =
     \<lparr>presenceService = new_PresenceService 0 example_browser,
      tabsStore = new_TabsStore,
      currentTabId = []\<rparr>"

text \<open>Three rows of one user on two devices, and a store that has fetched them.\<close>

definition tab_a1 :: Tab where
  "tab_a1 =
     \<lparr>user_id = ''user-1'', device_id = ''device-a'', tab_id = ''tab-1'',
      user_agent = ''Mozilla/5.0'', is_active = True,
      last_seen = ''1970-01-01T00:00:00.000Z'', created_at = ''1970-01-01T00:00:00.000Z''\<rparr>"

definition tab_b1 :: Tab where
  "tab_b1 =
     \<lparr>user_id = ''user-1'', device_id = ''device-b'', tab_id = ''tab-2'',
      user_agent = ''Mozilla/5.0'', is_active = True,
      last_seen = ''1970-01-01T00:00:30.000Z'', created_at = ''1970-01-01T00:00:00.000Z''\<rparr>"

definition tab_a2 :: Tab where
  "tab_a2 =
     \<lparr>user_id = ''user-1'', device_id = ''device-a'', tab_id = ''tab-3'',
      user_agent = ''Mozilla/5.0'', is_active = False,
      last_seen = ''1970-01-01T00:00:00.000Z'', created_at = ''1970-01-01T00:00:00.000Z''\<rparr>"

definition tab_invalid :: Tab where
  "tab_invalid = tab_a1\<lparr>last_seen := ''yesterday''\<rparr>"

definition example_store :: TabsStore where
  "example_store =
     fetchTabs ''user-1'' (Fulfilled \<lparr>data = Some [tab_a1, tab_b1, tab_a2], error = None\<rparr>)
       new_TabsStore"

section \<open>Facts about the presence service\<close>

lemma updatePresenceState_Some:
  assumes "tabPresenceSubject s = Some p"
  shows "updatePresenceState now seen s =
     (let st = (if now - lastActivityTime s > staleTimeout then Stale
                else if now - lastActivityTime s > idleTimeout \<or> \<not> isTabActiveSubject s then Idle
                else Active)
      in s\<lparr>console := (if state p \<noteq> st then console s @ [LogTransition (state p) st] else console s),
           tabPresenceSubject :=
             Some (p\<lparr>isActive := isTabActiveSubject s, lastSeen := seen, state := st\<rparr>)\<rparr>)"
  using assms by (simp add: updatePresenceState_def Let_def)

lemma updatePresenceState_frame [simp]:
  "lastActivityTime (updatePresenceState now seen s) = lastActivityTime s"
  "isTabActiveSubject (updatePresenceState now seen s) = isTabActiveSubject s"
  "heartbeats (updatePresenceState now seen s) = heartbeats s"
  "upserts (updatePresenceState now seen s) = upserts s"
  "window (updatePresenceState now seen s) = window s"
  by (simp_all add: updatePresenceState_def Let_def split: option.split)

lemma upsertPresence_frame [simp]:
  "tabPresenceSubject (snd (upsertPresence fmt outcome s)) = tabPresenceSubject s"
  "lastActivityTime (snd (upsertPresence fmt outcome s)) = lastActivityTime s"
  "isTabActiveSubject (snd (upsertPresence fmt outcome s)) = isTabActiveSubject s"
  "heartbeats (snd (upsertPresence fmt outcome s)) = heartbeats s"
  "window (snd (upsertPresence fmt outcome s)) = window s"
  by (simp_all add: upsertPresence_def Let_def split: option.split settled.split)

lemma upsertPresence_upserts:
  assumes "tabPresenceSubject s = Some p"
  shows "upserts (snd (upsertPresence fmt outcome s)) =
     upserts s @ [\<lparr>user_id = userId p, device_id = deviceId p, tab_id = tabId p,
                   user_agent = userAgent p, is_active = isActive p,
                   last_seen = fmt (lastSeen p)\<rparr>]"
  using assms by (simp add: upsertPresence_def Let_def split: option.split settled.split)

lemma on_event_frame [simp]:
  "tabPresenceSubject (on_event now e s) = tabPresenceSubject s"
  "heartbeats (on_event now e s) = heartbeats s"
  "upserts (on_event now e s) = upserts s"
  "window (on_event now e s) = window s"
  by (cases e; simp)+

lemma on_events_frame [simp]:
  "tabPresenceSubject (on_events es s) = tabPresenceSubject s"
  "heartbeats (on_events es s) = heartbeats s"
  "upserts (on_events es s) = upserts s"
  "window (on_events es s) = window s"
  by (induction es s rule: on_events.induct; simp)+

lemma on_events_snoc: "on_events (es @ [(now, e)]) s = on_event now e (on_events es s)"
  by (induction es s rule: on_events.induct) simp_all

lemma heartbeat_tick_presence:
  assumes "tabPresenceSubject s = Some p"
  shows "tabPresenceSubject (snd (heartbeat_tick fmt now seen outcome s)) =
     Some (p\<lparr>isActive := isTabActiveSubject s, lastSeen := seen,
             state := (if now - lastActivityTime s > staleTimeout then Stale
                       else if now - lastActivityTime s > idleTimeout \<or> \<not> isTabActiveSubject s then Idle
                       else Active)\<rparr>)"
  by (simp add: heartbeat_tick_def updatePresenceState_Some [OF assms] Let_def)

lemma heartbeat_tick_frame [simp]:
  "lastActivityTime (snd (heartbeat_tick fmt now seen outcome s)) = lastActivityTime s"
  "isTabActiveSubject (snd (heartbeat_tick fmt now seen outcome s)) = isTabActiveSubject s"
  "heartbeats (snd (heartbeat_tick fmt now seen outcome s)) = heartbeats s"
  "window (snd (heartbeat_tick fmt now seen outcome s)) = window s"
  by (simp_all add: heartbeat_tick_def)

lemma heartbeat_tick_upserts:
  assumes "tabPresenceSubject s = Some p"
  shows "upserts (snd (heartbeat_tick fmt now seen outcome s)) =
     upserts s @ [\<lparr>user_id = userId p, device_id = deviceId p, tab_id = tabId p,
                   user_agent = userAgent p, is_active = isTabActiveSubject s,
                   last_seen = fmt seen\<rparr>]"
proof -
  let ?s1 = "updatePresenceState now seen s"
  obtain p1 where p1: "tabPresenceSubject ?s1 = Some p1"
    and f: "userId p1 = userId p" "deviceId p1 = deviceId p" "tabId p1 = tabId p"
       "userAgent p1 = userAgent p" "isActive p1 = isTabActiveSubject s" "lastSeen p1 = seen"
    by (simp add: updatePresenceState_Some [OF assms] Let_def)
  show ?thesis
    unfolding heartbeat_tick_def upsertPresence_upserts [OF p1] by (simp add: f)
qed

lemma step_presence:
  assumes "tabPresenceSubject s = Some p"
  shows "\<exists>p'. tabPresenceSubject (step fmt a s) = Some p' \<and> same_identity p' p"
proof (cases a)
  case (Activity now e)
  then show ?thesis using assms by (simp add: same_identity_def)
next
  case (Heartbeat now seen outcome)
  then show ?thesis
    using assms heartbeat_tick_presence [OF assms, of fmt now seen outcome]
    by (simp add: same_identity_def)
qed

lemma step_heartbeats [simp]: "heartbeats (step fmt a s) = heartbeats s"
  by (cases a) simp_all

lemma run_heartbeats [simp]: "heartbeats (run fmt as s) = heartbeats s"
  by (induction as arbitrary: s) simp_all

lemma run_presence:
  assumes "tabPresenceSubject s = Some p"
  shows "\<exists>p'. tabPresenceSubject (run fmt as s) = Some p' \<and> same_identity p' p"
  using assms
proof (induction as arbitrary: s p)
  case Nil
  then show ?case by (simp add: same_identity_def)
next
  case (Cons a as)
  from step_presence [OF Cons.prems, of fmt a]
  obtain p1 where p1: "tabPresenceSubject (step fmt a s) = Some p1" and i1: "same_identity p1 p"
    by blast
  from Cons.IH [OF p1] obtain p2 where
    "tabPresenceSubject (run fmt as (step fmt a s)) = Some p2" "same_identity p2 p1"
    by blast
  with i1 show ?case by (auto simp: same_identity_def)
qed

text \<open>
  When the promise of \<^verbatim>\<open>upsert\<close> is rejected instead, the promise of the tick is
  rejected and the service writes nothing to the console; the service state is otherwise
  as after a successful write.
\<close>

lemma rejected_upsert_tick:
  assumes "tabPresenceSubject s = Some p"
  shows "fst (heartbeat_tick fmt now seen (Rejected m) s) = Some (Rejection m) \<and>
     (\<forall>r0. error r0 = None \<longrightarrow>
        snd (heartbeat_tick fmt now seen (Rejected m) s) =
        snd (heartbeat_tick fmt now seen (Fulfilled r0) s))"
proof -
  obtain p1 where "tabPresenceSubject (updatePresenceState now seen s) = Some p1"
    by (simp add: updatePresenceState_Some [OF assms] Let_def)
  then show ?thesis
    by (simp add: heartbeat_tick_def upsertPresence_def Let_def)
qed



section \<open>Facts about the session service\<close>

lemma generateUUID_nonempty: "fst (generateUUID b) \<noteq> []"
  by (simp add: generateUUID_def uuid_template_def)

lemma generateUUID_frame [simp]:
  "localStorage (snd (generateUUID b)) = localStorage b"
  "sessionStorage (snd (generateUUID b)) = sessionStorage b"
  "navigator_userAgent (snd (generateUUID b)) = navigator_userAgent b"
  by (simp_all add: generateUUID_def)

lemma getOrCreateDeviceId_userAgent [simp]:
  "navigator_userAgent (snd (getOrCreateDeviceId b)) = navigator_userAgent b"
  by (simp add: getOrCreateDeviceId_def Let_def case_prod_beta split: sum.split)

lemma getOrCreateTabId_userAgent [simp]:
  "navigator_userAgent (snd (getOrCreateTabId b)) = navigator_userAgent b"
  by (simp add: getOrCreateTabId_def Let_def case_prod_beta split: sum.split)

lemma getOrCreateDeviceId_denied:
  "status (localStorage b) = AccessDenied \<Longrightarrow> getOrCreateDeviceId b = (Inl SecurityError, b)"
  by (simp add: getOrCreateDeviceId_def getItem_def)

lemma getOrCreateTabId_denied:
  "status (sessionStorage b) = AccessDenied \<Longrightarrow> getOrCreateTabId b = (Inl SecurityError, b)"
  by (simp add: getOrCreateTabId_def getItem_def)

lemma getOrCreateDeviceId_quota:
  "status (localStorage b) = QuotaExceeded \<Longrightarrow> falsy (items (localStorage b) ''deviceId'') \<Longrightarrow>
     fst (getOrCreateDeviceId b) = Inl QuotaExceededError"
  by (simp add: getOrCreateDeviceId_def getItem_def setItem_def case_prod_beta)

lemma getOrCreateTabId_quota:
  "status (sessionStorage b) = QuotaExceeded \<Longrightarrow> falsy (items (sessionStorage b) ''tabId'') \<Longrightarrow>
     fst (getOrCreateTabId b) = Inl QuotaExceededError"
  by (simp add: getOrCreateTabId_def getItem_def setItem_def case_prod_beta)

lemma getOrCreateDeviceId_stored:
  "status (localStorage b) \<noteq> AccessDenied \<Longrightarrow> items (localStorage b) ''deviceId'' = Some v \<Longrightarrow>
     v \<noteq> [] \<Longrightarrow> getOrCreateDeviceId b = (Inr v, b)"
  by (cases "status (localStorage b)") (simp_all add: getOrCreateDeviceId_def getItem_def falsy_def)

lemma getOrCreateTabId_stored:
  "status (sessionStorage b) \<noteq> AccessDenied \<Longrightarrow> items (sessionStorage b) ''tabId'' = Some v \<Longrightarrow>
     v \<noteq> [] \<Longrightarrow> getOrCreateTabId b = (Inr v, b)"
  by (cases "status (sessionStorage b)") (simp_all add: getOrCreateTabId_def getItem_def falsy_def)

lemma getOrCreateDeviceId_fresh:
  "status (localStorage b) = Available \<Longrightarrow> falsy (items (localStorage b) ''deviceId'') \<Longrightarrow>
     fst (getOrCreateDeviceId b) = Inr (fst (generateUUID b)) \<and>
     items (localStorage (snd (getOrCreateDeviceId b))) ''deviceId'' = Some (fst (generateUUID b))"
  by (simp add: getOrCreateDeviceId_def getItem_def setItem_def case_prod_beta)

lemma getOrCreateTabId_fresh:
  "status (sessionStorage b) = Available \<Longrightarrow> falsy (items (sessionStorage b) ''tabId'') \<Longrightarrow>
     fst (getOrCreateTabId b) = Inr (fst (generateUUID b)) \<and>
     items (sessionStorage (snd (getOrCreateTabId b))) ''tabId'' = Some (fst (generateUUID b))"
  by (simp add: getOrCreateTabId_def getItem_def setItem_def case_prod_beta)

lemma getOrCreateDeviceId_available:
  assumes "status (localStorage b) = Available"
  shows "\<exists>v. fst (getOrCreateDeviceId b) = Inr v \<and> v \<noteq> [] \<and>
           items (localStorage (snd (getOrCreateDeviceId b))) ''deviceId'' = Some v"
proof (cases "falsy (items (localStorage b) ''deviceId'')")
  case True
  from getOrCreateDeviceId_fresh [OF assms True] generateUUID_nonempty [of b]
  show ?thesis by blast
next
  case False
  then obtain v where "items (localStorage b) ''deviceId'' = Some v" "v \<noteq> []"
    by (auto simp: falsy_def split: option.splits)
  with getOrCreateDeviceId_stored [of b v] assms show ?thesis by simp
qed

lemma getOrCreateTabId_available:
  assumes "status (sessionStorage b) = Available"
  shows "\<exists>v. fst (getOrCreateTabId b) = Inr v \<and> v \<noteq> [] \<and>
           items (sessionStorage (snd (getOrCreateTabId b))) ''tabId'' = Some v"
proof (cases "falsy (items (sessionStorage b) ''tabId'')")
  case True
  from getOrCreateTabId_fresh [OF assms True] generateUUID_nonempty [of b]
  show ?thesis by blast
next
  case False
  then obtain v where "items (sessionStorage b) ''tabId'' = Some v" "v \<noteq> []"
    by (auto simp: falsy_def split: option.splits)
  with getOrCreateTabId_stored [of b v] assms show ?thesis by simp
qed

text \<open>When an identifier is returned at all.\<close>

lemma getOrCreateDeviceId_returns_iff:
  "(\<exists>v. fst (getOrCreateDeviceId b) = Inr v) \<longleftrightarrow>
     \<not> (status (localStorage b) = AccessDenied \<or>
        status (localStorage b) = QuotaExceeded \<and> falsy (items (localStorage b) ''deviceId''))"
proof (cases "status (localStorage b)")
  case Available
  with getOrCreateDeviceId_available [of b] show ?thesis by auto
next
  case QuotaExceeded
  show ?thesis
  proof (cases "falsy (items (localStorage b) ''deviceId'')")
    case True
    with QuotaExceeded getOrCreateDeviceId_quota [of b] show ?thesis by simp
  next
    case False
    then obtain v where "items (localStorage b) ''deviceId'' = Some v" "v \<noteq> []"
      by (auto simp: falsy_def split: option.splits)
    with QuotaExceeded False getOrCreateDeviceId_stored [of b v] show ?thesis by simp
  qed
next
  case AccessDenied
  with getOrCreateDeviceId_denied [of b] show ?thesis by simp
qed

lemma getOrCreateTabId_returns_iff:
  "(\<exists>v. fst (getOrCreateTabId b) = Inr v) \<longleftrightarrow>
     \<not> (status (sessionStorage b) = AccessDenied \<or>
        status (sessionStorage b) = QuotaExceeded \<and> falsy (items (sessionStorage b) ''tabId''))"
proof (cases "status (sessionStorage b)")
  case Available
  with getOrCreateTabId_available [of b] show ?thesis by auto
next
  case QuotaExceeded
  show ?thesis
  proof (cases "falsy (items (sessionStorage b) ''tabId'')")
    case True
    with QuotaExceeded getOrCreateTabId_quota [of b] show ?thesis by simp
  next
    case False
    then obtain v where "items (sessionStorage b) ''tabId'' = Some v" "v \<noteq> []"
      by (auto simp: falsy_def split: option.splits)
    with QuotaExceeded False getOrCreateTabId_stored [of b v] show ?thesis by simp
  qed
next
  case AccessDenied
  with getOrCreateTabId_denied [of b] show ?thesis by simp
qed

text \<open>What a call of \<^verbatim>\<open>initializePresence\<close> that returns has done.\<close>

lemma initializePresence_returns:
  assumes "initializePresence fmt seen outcome uid s0 = (None, s1)"
  shows "\<exists>did tid.
     fst (getOrCreateDeviceId (window s0)) = Inr did \<and>
     fst (getOrCreateTabId (snd (getOrCreateDeviceId (window s0)))) = Inr tid \<and>
     tabPresenceSubject s1 =
       Some \<lparr>userId = uid, deviceId = did, tabId = tid, isActive = True, lastSeen = seen,
             userAgent = navigator_userAgent (window s0), state = Active\<rparr> \<and>
     upserts s1 =
       upserts s0 @ [\<lparr>user_id = uid, device_id = did, tab_id = tid,
                      user_agent = navigator_userAgent (window s0), is_active = True,
                      last_seen = fmt seen\<rparr>] \<and>
     heartbeats s1 = heartbeats s0 + 1 \<and>
     lastActivityTime s1 = lastActivityTime s0 \<and>
     isTabActiveSubject s1 = isTabActiveSubject s0"
proof -
  obtain r1 b1 where d: "getOrCreateDeviceId (window s0) = (r1, b1)" by force
  obtain r2 b2 where t: "getOrCreateTabId b1 = (r2, b2)" by force
  from assms d t obtain did tid where r: "r1 = Inr did" "r2 = Inr tid"
    by (auto simp: initializePresence_def split: sum.splits)
  have ua: "navigator_userAgent b2 = navigator_userAgent (window s0)"
    using getOrCreateDeviceId_userAgent [of "window s0"] getOrCreateTabId_userAgent [of b1] d t
    by simp
  let ?p = "\<lparr>userId = uid, deviceId = did, tabId = tid, isActive = True, lastSeen = seen,
             userAgent = navigator_userAgent (window s0), state = Active\<rparr>"
  let ?s3 = "s0\<lparr>window := b2, tabPresenceSubject := Some ?p\<rparr>"
  have s1: "s1 = startHeartbeat (snd (upsertPresence fmt outcome ?s3))"
    using assms d t r ua by (simp add: initializePresence_def Let_def getUserAgent_def)
  have p3: "tabPresenceSubject ?s3 = Some ?p" by simp
  show ?thesis
    using d t r upsertPresence_upserts [OF p3, of fmt outcome]
    by (simp add: s1 startHeartbeat_def)
qed

text \<open>The example service, evaluated.\<close>

lemma example_started_returns:
  "initializePresence example_toISOString 0 (Fulfilled ok_response) ''user-1''
     (new_PresenceService 0 example_browser) = (None, example_started)"
proof -
  have "fst (initializePresence example_toISOString 0 (Fulfilled ok_response) ''user-1''
     (new_PresenceService 0 example_browser)) = None"
    by code_simp
  then show ?thesis
    by (simp add: example_started_def prod_eq_iff)
qed

lemma example_started_fields:
  "tabPresenceSubject example_started = Some example_presence"
  "lastActivityTime example_started = 0"
  "isTabActiveSubject example_started = True"
  "heartbeats example_started = 1"
  by code_simp+

section \<open>Facts about grouping\<close>

lemma first_seen_snoc:
  "first_seen (xs @ [x]) = (if x \<in> set (first_seen xs) then first_seen xs else first_seen xs @ [x])"
  by (simp add: first_seen_def)

lemma first_seen_set [simp]: "set (first_seen xs) = set xs"
  by (induction xs rule: rev_induct) (auto simp: first_seen_snoc first_seen_def)

lemma first_seen_distinct [simp]: "distinct (first_seen xs)"
  by (induction xs rule: rev_induct) (auto simp: first_seen_snoc first_seen_def)

lemma update_fresh: "map_of m k = None \<Longrightarrow> AList.update k v m = m @ [(k, v)]"
  by (induction m) (auto split: if_splits)

lemma update_last: "map_of m k = None \<Longrightarrow> AList.update k v (m @ [(k, w)]) = m @ [(k, v)]"
  by (induction m) (auto split: if_splits)

lemma update_tabulated:
  "distinct ks \<Longrightarrow> k \<in> set ks \<Longrightarrow>
     AList.update k v (map (\<lambda>d. (d, f d)) ks) = map (\<lambda>d. (d, if d = k then v else f d)) ks"
  by (induction ks) auto

lemma map_of_tabulated:
  "map_of (map (\<lambda>d. (d, f d)) ks) k = (if k \<in> set ks then Some (f k) else None)"
  by (induction ks) auto

lemma map_of_groups_of:
  "map_of (groups_of ts) k =
     (if k \<in> set (map device_id ts) then Some (filter (\<lambda>x. device_id x = k) ts) else None)"
  by (simp add: groups_of_def map_of_tabulated)

lemma groups_of_snoc_old:
  assumes "device_id t \<in> set (map device_id ts)"
  shows "groups_of (ts @ [t]) =
     AList.update (device_id t) (filter (\<lambda>x. device_id x = device_id t) ts @ [t]) (groups_of ts)"
  using assms by (simp add: groups_of_def first_seen_snoc update_tabulated)

lemma groups_of_snoc_new:
  assumes "device_id t \<notin> set (map device_id ts)"
  shows "groups_of (ts @ [t]) = groups_of ts @ [(device_id t, [t])]"
proof -
  have "\<forall>x\<in>set ts. device_id x \<noteq> device_id t"
    using assms by (metis image_eqI set_map)
  then have "filter (\<lambda>x. device_id x = device_id t) ts = []"
    by (simp add: filter_empty_conv)
  moreover have "map (\<lambda>d. (d, filter (\<lambda>x. device_id x = d) (ts @ [t]))) (first_seen (map device_id ts))
      = map (\<lambda>d. (d, filter (\<lambda>x. device_id x = d) ts)) (first_seen (map device_id ts))"
    using assms by (intro map_cong) auto
  ultimately show ?thesis
    using assms by (simp add: groups_of_def first_seen_snoc)
qed

text \<open>One round of the \<^verbatim>\<open>forEach\<close> never throws and extends the partition by one row.\<close>

lemma group_tab_groups_of: "group_tab t (groups_of ts) = Inr (groups_of (ts @ [t]))"
proof (cases "device_id t \<in> set (map device_id ts)")
  case True
  then show ?thesis
    unfolding groups_of_snoc_old [OF True]
    by (simp add: group_tab_def map_has_def map_get_def map_set_def map_of_groups_of)
next
  case False
  then have n: "map_of (groups_of ts) (device_id t) = None"
    by (simp add: map_of_groups_of)
  show ?thesis
    unfolding groups_of_snoc_new [OF False]
    by (simp add: group_tab_def map_has_def map_get_def map_set_def n update_fresh [OF n]
        update_last [OF n] map_add_def)
qed

lemma group_all_snoc:
  "group_all (ts @ [t]) g = (case group_all ts g of Inl e \<Rightarrow> Inl e | Inr g' \<Rightarrow> group_tab t g')"
  by (induction ts arbitrary: g) (auto split: sum.splits)

lemma group_all_groups_of: "group_all ts [] = Inr (groups_of ts)"
proof (induction ts rule: rev_induct)
  case Nil
  then show ?case by (simp add: groups_of_def first_seen_def)
next
  case (snoc t ts)
  then show ?case by (simp add: group_all_snoc group_tab_groups_of)
qed

lemma groupedTabs_eq:
  "groupedTabs st =
     Inr (map (\<lambda>d. \<lparr>GroupedTabs.deviceId = d,
                     tabs = filter (\<lambda>t. device_id t = d) (allTabsSignal st)\<rparr>)
            (first_seen (map device_id (allTabsSignal st))))"
  by (simp add: groupedTabs_def group_all_groups_of groups_of_def)

lemma partition_by_key_mset:
  "distinct ks \<Longrightarrow> f ` set xs \<subseteq> set ks \<Longrightarrow>
     mset (concat (map (\<lambda>d. filter (\<lambda>t. f t = d) xs) ks)) = mset xs"
proof (induction ks arbitrary: xs)
  case Nil
  then show ?case by simp
next
  case (Cons k ks)
  let ?ys = "filter (\<lambda>t. f t \<noteq> k) xs"
  have same: "map (\<lambda>d. filter (\<lambda>t. f t = d) xs) ks = map (\<lambda>d. filter (\<lambda>t. f t = d) ?ys) ks"
  proof (rule map_cong [OF refl])
    fix d assume "d \<in> set ks"
    with Cons.prems(1) have "d \<noteq> k" by auto
    then show "filter (\<lambda>t. f t = d) xs = filter (\<lambda>t. f t = d) ?ys"
      by (auto simp: filter_filter intro: filter_cong)
  qed
  have "f ` set ?ys \<subseteq> set ks" using Cons.prems(2) by auto
  with Cons.IH [of ?ys] Cons.prems(1)
  have "mset (concat (map (\<lambda>d. filter (\<lambda>t. f t = d) ?ys) ks)) = mset ?ys" by simp
  then show ?case
    by (simp add: same)
qed

lemma example_store_tabs: "allTabsSignal example_store = [tab_a1, tab_b1, tab_a2]"
  by (simp add: example_store_def fetchTabs_def fetchTabs_begin_def fetchTabs_settle_def
      new_TabsStore_def)

text \<open>The guard of \<^verbatim>\<open>fetchTabs\<close>: without a user id no query is issued.\<close>

lemma fetchTabs_no_user:
  "fetchTabs [] outcome st = st\<lparr>errorSignal := Some ''No user ID provided''\<rparr>"
  by (simp add: fetchTabs_def fetchTabs_begin_def)

section \<open>The presence state machine\<close>

text \<open>
  C1. At a heartbeat tick, with \<open>elapsed = now - lastActivityTime\<close>, the state computed by
  \<^verbatim>\<open>updatePresenceState\<close> is Stale exactly when \<open>elapsed\<close> exceeds 30 minutes, whatever
  the focus flag; Idle exactly when \<open>elapsed\<close> is at most 30 minutes and either exceeds 5
  minutes or the tab is not focused; and Active exactly when \<open>elapsed\<close> is at most 5
  minutes and the tab is focused. The three conditions exclude each other and cover
  every input, so exactly one of the three states is returned.
\<close>

theorem updatePresenceState_classifies:
  assumes "tabPresenceSubject s = Some p"
  shows "\<exists>p'. tabPresenceSubject (updatePresenceState now seen s) = Some p' \<and>
           (state p' = Stale \<longleftrightarrow> now - lastActivityTime s > 30 * 60 * 1000) \<and>
           (state p' = Idle \<longleftrightarrow>
              now - lastActivityTime s \<le> 30 * 60 * 1000 \<and>
              (now - lastActivityTime s > 5 * 60 * 1000 \<or> \<not> isTabActiveSubject s)) \<and>
           (state p' = Active \<longleftrightarrow>
              now - lastActivityTime s \<le> 5 * 60 * 1000 \<and> isTabActiveSubject s)"
  using updatePresenceState_Some [OF assms, of now seen]
  by (auto simp: staleTimeout_def idleTimeout_def Let_def)

text \<open>Scenario C of the specification: focused, no input for 31 minutes.\<close>

theorem updatePresenceState_classifies_witness:
  "tabPresenceSubject example_started = Some example_presence \<and>
   (\<exists>p'. tabPresenceSubject (updatePresenceState 1860000 1860000 example_started) = Some p' \<and>
      state p' = Stale)"
  using updatePresenceState_classifies [OF example_started_fields(1), of 1860000 1860000]
  by (auto simp: example_started_fields)

section \<open>The classification of the registry reader\<close>

text \<open>
  C2. \<^verbatim>\<open>getTabState\<close> depends on the \<^verbatim>\<open>last_seen\<close> of the row only: it is Stale
  exactly when \<open>now - last_seen\<close> exceeds 30 minutes, Idle exactly when that difference
  exceeds 5 minutes and is at most 30 minutes, and Active otherwise (also when
  \<^verbatim>\<open>last_seen\<close> is no date, so that the difference is \<^verbatim>\<open>NaN\<close>). Two rows with the
  same \<^verbatim>\<open>last_seen\<close> get the same state, whatever their \<^verbatim>\<open>is_active\<close> and other
  columns.
\<close>

theorem getTabState_depends_on_last_seen:
  "(\<forall>t. parse (last_seen tab) = Some t \<longrightarrow>
      (getTabState parse now tab = Stale \<longleftrightarrow> now - t > 30 * 60 * 1000) \<and>
      (getTabState parse now tab = Idle \<longleftrightarrow>
         5 * 60 * 1000 < now - t \<and> now - t \<le> 30 * 60 * 1000) \<and>
      (getTabState parse now tab = Active \<longleftrightarrow> now - t \<le> 5 * 60 * 1000)) \<and>
   (parse (last_seen tab) = None \<longrightarrow> getTabState parse now tab = Active) \<and>
   (\<forall>tab'. last_seen tab' = last_seen tab \<longrightarrow>
      getTabState parse now tab' = getTabState parse now tab)"
  by (auto simp: getTabState_def Let_def)

theorem getTabState_depends_on_last_seen_witness:
  "example_parse (last_seen tab_a1) = Some 0 \<and>
   getTabState example_parse 360000 tab_a1 = Idle \<and>
   last_seen tab_a2 = last_seen tab_a1 \<and> is_active tab_a2 \<noteq> is_active tab_a1 \<and>
   getTabState example_parse 360000 tab_a2 = getTabState example_parse 360000 tab_a1 \<and>
   example_parse (last_seen tab_invalid) = None \<and>
   getTabState example_parse 360000 tab_invalid = Active"
proof -
  have h1: "example_parse (last_seen tab_a1) = Some 0"
    by (simp add: example_parse_def tab_a1_def)
  have h2: "last_seen tab_a2 = last_seen tab_a1" "is_active tab_a2 \<noteq> is_active tab_a1"
    by (simp_all add: tab_a1_def tab_a2_def)
  have h3: "example_parse (last_seen tab_invalid) = None"
    by (simp add: example_parse_def tab_invalid_def)
  from getTabState_depends_on_last_seen [of example_parse tab_a1 360000] h1
  have "getTabState example_parse 360000 tab_a1 = Idle"
    and "getTabState example_parse 360000 tab_a2 = getTabState example_parse 360000 tab_a1"
    using h2(1) by auto
  moreover from getTabState_depends_on_last_seen [of example_parse tab_invalid 360000] h3
  have "getTabState example_parse 360000 tab_invalid = Active" by blast
  ultimately show ?thesis using h1 h2 h3 by blast
qed

section \<open>Heartbeat ticks\<close>

text \<open>
  C3. After \<^verbatim>\<open>initializePresence\<close> has returned, and after any further activity events
  and ticks, a heartbeat tick sets \<^verbatim>\<open>lastSeen\<close> of the presence record to the time read
  during that tick. This does not depend on \<^verbatim>\<open>lastActivityTime\<close>, on the focus flag or on
  the computed state. The row handed to \<^verbatim>\<open>upsert\<close> in the same tick carries this time as
  its \<^verbatim>\<open>last_seen\<close>: the column records that the heartbeat is alive, not when the user
  was last active.
\<close>

theorem heartbeat_refreshes_lastSeen:
  assumes "initializePresence fmt seen0 outcome0 uid s0 = (None, s1)"
  shows "\<exists>p row.
     tabPresenceSubject (step fmt (Heartbeat now seen outcome) (run fmt as s1)) = Some p \<and>
     lastSeen p = seen \<and>
     upserts (step fmt (Heartbeat now seen outcome) (run fmt as s1)) =
       upserts (run fmt as s1) @ [row] \<and>
     last_seen row = fmt seen"
proof -
  from initializePresence_returns [OF assms] obtain p1 where
    "tabPresenceSubject s1 = Some p1" and h: "0 < heartbeats s1"
    by auto
  from run_presence [OF this(1), of fmt as] obtain p2 where
    p2: "tabPresenceSubject (run fmt as s1) = Some p2" by blast
  show ?thesis
    using heartbeat_tick_presence [OF p2, of fmt now seen outcome]
      heartbeat_tick_upserts [OF p2, of fmt now seen outcome] h
    by simp
qed

text \<open>The tab is blurred after one second and the tick comes after 31 minutes.\<close>

theorem heartbeat_refreshes_lastSeen_witness:
  "initializePresence example_toISOString 0 (Fulfilled ok_response) ''user-1''
     (new_PresenceService 0 example_browser) = (None, example_started) \<and>
   (\<exists>p row.
     tabPresenceSubject
       (step example_toISOString (Heartbeat 1860000 1860000 (Fulfilled ok_response))
          (run example_toISOString [Activity 1000 Blur] example_started)) = Some p \<and>
     lastSeen p = 1860000 \<and>
     upserts
       (step example_toISOString (Heartbeat 1860000 1860000 (Fulfilled ok_response))
          (run example_toISOString [Activity 1000 Blur] example_started)) =
       upserts (run example_toISOString [Activity 1000 Blur] example_started) @ [row] \<and>
     last_seen row = ''1970-01-01T00:31:00.000Z'')"
proof -
  have "example_toISOString 1860000 = ''1970-01-01T00:31:00.000Z''"
    by (simp add: example_toISOString_def)
  with heartbeat_refreshes_lastSeen [OF example_started_returns,
      of 1860000 1860000 "Fulfilled ok_response" "[Activity 1000 Blur]"]
  show ?thesis using example_started_returns by simp
qed

text \<open>
  C10. A heartbeat tick re-derives the presence record it finds: the record after the
  tick has the \<^verbatim>\<open>userId\<close>, \<^verbatim>\<open>deviceId\<close>, \<^verbatim>\<open>tabId\<close> and \<^verbatim>\<open>userAgent\<close> of the
  record created by \<^verbatim>\<open>initializePresence\<close>, and differs from the record before the tick
  in \<^verbatim>\<open>isActive\<close>, \<^verbatim>\<open>lastSeen\<close> and \<^verbatim>\<open>state\<close> at most.
\<close>

theorem heartbeat_keeps_identity:
  assumes "initializePresence fmt seen0 outcome0 uid s0 = (None, s1)"
  shows "\<exists>p0 p p'.
     tabPresenceSubject s1 = Some p0 \<and>
     tabPresenceSubject (run fmt as s1) = Some p \<and>
     tabPresenceSubject (step fmt (Heartbeat now seen outcome) (run fmt as s1)) = Some p' \<and>
     userId p' = userId p0 \<and> deviceId p' = deviceId p0 \<and>
     tabId p' = tabId p0 \<and> userAgent p' = userAgent p0 \<and>
     p' = p\<lparr>isActive := isActive p', lastSeen := lastSeen p', state := state p'\<rparr>"
proof -
  from initializePresence_returns [OF assms] obtain p0 where
    p0: "tabPresenceSubject s1 = Some p0" and h: "0 < heartbeats s1"
    by auto
  from run_presence [OF p0, of fmt as] obtain p where
    p: "tabPresenceSubject (run fmt as s1) = Some p" and i: "same_identity p p0" by blast
  show ?thesis
    using p0 p i h heartbeat_tick_presence [OF p, of fmt now seen outcome]
    by (simp add: same_identity_def)
qed

theorem heartbeat_keeps_identity_witness:
  "initializePresence example_toISOString 0 (Fulfilled ok_response) ''user-1''
     (new_PresenceService 0 example_browser) = (None, example_started) \<and>
   (\<exists>p p'.
     tabPresenceSubject
       (run example_toISOString
          [Activity 1000 Blur, Heartbeat 30000 30000 (Fulfilled failed_response)]
          example_started) = Some p \<and>
     tabPresenceSubject
       (step example_toISOString (Heartbeat 60000 60000 (Fulfilled ok_response))
          (run example_toISOString
             [Activity 1000 Blur, Heartbeat 30000 30000 (Fulfilled failed_response)]
             example_started)) = Some p' \<and>
     userId p' = ''user-1'' \<and>
     deviceId p' = ''01234567-89ab-4cde-b012-3456789abcde'' \<and>
     tabId p' = ''f0123456-789a-4bcd-af01-23456789abcd'' \<and>
     userAgent p' = ''Mozilla/5.0'' \<and>
     p' = p\<lparr>isActive := isActive p', lastSeen := lastSeen p', state := state p'\<rparr>)"
proof -
  from heartbeat_keeps_identity [OF example_started_returns,
      of "[Activity 1000 Blur, Heartbeat 30000 30000 (Fulfilled failed_response)]"
         60000 60000 "Fulfilled ok_response"]
  obtain p0 p p' where
    "tabPresenceSubject example_started = Some p0"
    "tabPresenceSubject
       (run example_toISOString
          [Activity 1000 Blur, Heartbeat 30000 30000 (Fulfilled failed_response)]
          example_started) = Some p"
    "tabPresenceSubject
       (step example_toISOString (Heartbeat 60000 60000 (Fulfilled ok_response))
          (run example_toISOString
             [Activity 1000 Blur, Heartbeat 30000 30000 (Fulfilled failed_response)]
             example_started)) = Some p'"
    "userId p' = userId p0" "deviceId p' = deviceId p0"
    "tabId p' = tabId p0" "userAgent p' = userAgent p0"
    "p' = p\<lparr>isActive := isActive p', lastSeen := lastSeen p', state := state p'\<rparr>"
    by blast
  moreover from this(1) have "p0 = example_presence"
    by (simp add: example_started_fields)
  ultimately show ?thesis
    using example_started_returns by (auto simp: example_presence_def)
qed

section \<open>Activity tracking\<close>

text \<open>
  C4. After any sequence of activity events: gaining focus and becoming visible each set
  the focus flag and set \<^verbatim>\<open>lastActivityTime\<close> to the current time; losing focus and
  becoming hidden each clear the focus flag and leave \<^verbatim>\<open>lastActivityTime\<close> as it was;
  pointer-down, key-down and touch-start each set \<^verbatim>\<open>lastActivityTime\<close> to the current
  time and leave the focus flag as it was.
\<close>

theorem activity_events_effect:
  "isTabActiveSubject (on_events (es @ [(now, Focus)]) s) = True \<and>
   lastActivityTime (on_events (es @ [(now, Focus)]) s) = now \<and>
   isTabActiveSubject (on_events (es @ [(now, VisibilityChange Visible)]) s) = True \<and>
   lastActivityTime (on_events (es @ [(now, VisibilityChange Visible)]) s) = now \<and>
   isTabActiveSubject (on_events (es @ [(now, Blur)]) s) = False \<and>
   lastActivityTime (on_events (es @ [(now, Blur)]) s) = lastActivityTime (on_events es s) \<and>
   isTabActiveSubject (on_events (es @ [(now, VisibilityChange Hidden)]) s) = False \<and>
   lastActivityTime (on_events (es @ [(now, VisibilityChange Hidden)]) s) =
     lastActivityTime (on_events es s) \<and>
   lastActivityTime (on_events (es @ [(now, MouseDown)]) s) = now \<and>
   isTabActiveSubject (on_events (es @ [(now, MouseDown)]) s) =
     isTabActiveSubject (on_events es s) \<and>
   lastActivityTime (on_events (es @ [(now, KeyDown)]) s) = now \<and>
   isTabActiveSubject (on_events (es @ [(now, KeyDown)]) s) =
     isTabActiveSubject (on_events es s) \<and>
   lastActivityTime (on_events (es @ [(now, TouchStart)]) s) = now \<and>
   isTabActiveSubject (on_events (es @ [(now, TouchStart)]) s) =
     isTabActiveSubject (on_events es s)"
  by (simp add: on_events_snoc)

section \<open>A failed write\<close>




section \<open>A failed fetch\<close>

text \<open>
  C6. When a fetch for a user fails, by an error in the result or by a thrown exception,
  the message is stored in the error signal, the loading flag is cleared and the tabs
  fetched before are kept. This holds for the fetch as a whole and for its second part
  run in any state. A fetch changes the tabs only when it resolves without error and
  with data, and then the tabs are that data.
\<close>

theorem failed_fetch_keeps_tabs:
  assumes "uid \<noteq> []"
    and "outcome = Rejected m \<or> (\<exists>r. outcome = Fulfilled r \<and> error r = Some m)"
  shows "errorSignal (fetchTabs uid outcome st) = Some m \<and>
     allTabsSignal (fetchTabs uid outcome st) = allTabsSignal st \<and>
     isLoadingSignal (fetchTabs uid outcome st) = False \<and>
     errorSignal (fetchTabs_settle outcome st2) = Some m \<and>
     allTabsSignal (fetchTabs_settle outcome st2) = allTabsSignal st2 \<and>
     (\<forall>outcome'. allTabsSignal (fetchTabs uid outcome' st) \<noteq> allTabsSignal st \<longrightarrow>
        (\<exists>r d. outcome' = Fulfilled r \<and> error r = None \<and> data r = Some d \<and>
               allTabsSignal (fetchTabs uid outcome' st) = d))"
  using assms
  by (auto simp: fetchTabs_def fetchTabs_begin_def fetchTabs_settle_def Let_def
      split: settled.splits option.splits)

theorem failed_fetch_keeps_tabs_witness:
  "''user-1'' \<noteq> [] \<and>
   errorSignal (fetchTabs ''user-1'' (Rejected ''Failed to fetch'') example_store) =
     Some ''Failed to fetch'' \<and>
   allTabsSignal (fetchTabs ''user-1'' (Rejected ''Failed to fetch'') example_store) =
     [tab_a1, tab_b1, tab_a2] \<and>
   error \<lparr>data = None, error = Some ''permission denied''\<rparr> = Some ''permission denied'' \<and>
   errorSignal
     (fetchTabs ''user-1'' (Fulfilled \<lparr>data = None, error = Some ''permission denied''\<rparr>)
        example_store) = Some ''permission denied'' \<and>
   allTabsSignal
     (fetchTabs ''user-1'' (Fulfilled \<lparr>data = None, error = Some ''permission denied''\<rparr>)
        example_store) = [tab_a1, tab_b1, tab_a2] \<and>
   allTabsSignal (fetchTabs ''user-1'' (Fulfilled \<lparr>data = Some [tab_b1], error = None\<rparr>)
     example_store) \<noteq> allTabsSignal example_store \<and>
   (\<exists>r. Fulfilled \<lparr>data = Some [tab_b1], error = None\<rparr> = Fulfilled r \<and> error r = None \<and>
      data r = Some (allTabsSignal
        (fetchTabs ''user-1'' (Fulfilled \<lparr>data = Some [tab_b1], error = None\<rparr>) example_store)))"
proof -
  have u: "''user-1'' \<noteq> []" by simp
  have e: "error \<lparr>data = None, error = Some ''permission denied''\<rparr> = Some ''permission denied''"
    by simp
  have c: "allTabsSignal
      (fetchTabs ''user-1'' (Fulfilled \<lparr>data = Some [tab_b1], error = None\<rparr>) example_store)
      \<noteq> allTabsSignal example_store"
    by (simp add: example_store_tabs fetchTabs_def fetchTabs_begin_def fetchTabs_settle_def)
  note t1 = failed_fetch_keeps_tabs [OF u, of "Rejected ''Failed to fetch''" "''Failed to fetch''"
      example_store example_store]
  note t2 = failed_fetch_keeps_tabs [OF u,
      of "Fulfilled \<lparr>data = None, error = Some ''permission denied''\<rparr>" "''permission denied''"
      example_store example_store]
  from t1 c have "\<exists>r d. Fulfilled \<lparr>data = Some [tab_b1], error = None\<rparr> = Fulfilled r \<and>
      error r = None \<and> data r = Some d \<and>
      allTabsSignal (fetchTabs ''user-1'' (Fulfilled \<lparr>data = Some [tab_b1], error = None\<rparr>)
        example_store) = d"
    by blast
  then have s: "\<exists>r. Fulfilled \<lparr>data = Some [tab_b1], error = None\<rparr> = Fulfilled r \<and>
      error r = None \<and>
      data r = Some (allTabsSignal
        (fetchTabs ''user-1'' (Fulfilled \<lparr>data = Some [tab_b1], error = None\<rparr>) example_store))"
    by blast
  from t1 have "errorSignal (fetchTabs ''user-1'' (Rejected ''Failed to fetch'') example_store) =
      Some ''Failed to fetch'' \<and>
    allTabsSignal (fetchTabs ''user-1'' (Rejected ''Failed to fetch'') example_store) =
      [tab_a1, tab_b1, tab_a2]"
    by (simp add: example_store_tabs)
  moreover from t2 e have "errorSignal
      (fetchTabs ''user-1'' (Fulfilled \<lparr>data = None, error = Some ''permission denied''\<rparr>)
        example_store) = Some ''permission denied'' \<and>
    allTabsSignal
      (fetchTabs ''user-1'' (Fulfilled \<lparr>data = None, error = Some ''permission denied''\<rparr>)
        example_store) = [tab_a1, tab_b1, tab_a2]"
    by (simp add: example_store_tabs)
  ultimately show ?thesis using u e c s by blast
qed

section \<open>Grouping by device\<close>

text \<open>
  C7. For every list of rows held by the store, \<^verbatim>\<open>groupedTabs\<close> returns (it does not
  throw) a list of groups that partitions the rows by \<^verbatim>\<open>device_id\<close>: the device ids of
  the groups are distinct and come in the order of their first occurrence in the input;
  each group holds the rows of its device, in input order; every row is in exactly one
  group; the groups together hold the rows of the input, each as often as the input does;
  the group sizes add up to the length of the input; and there are as many groups as
  distinct device ids.
\<close>

theorem groupedTabs_partitions:
  "\<exists>gs. groupedTabs st = Inr gs \<and>
     distinct (map GroupedTabs.deviceId gs) \<and>
     map GroupedTabs.deviceId gs = first_seen (map device_id (allTabsSignal st)) \<and>
     (\<forall>g\<in>set gs.
        tabs g = filter (\<lambda>t. device_id t = GroupedTabs.deviceId g) (allTabsSignal st)) \<and>
     (\<forall>t\<in>set (allTabsSignal st). \<exists>!g. g \<in> set gs \<and> t \<in> set (tabs g)) \<and>
     mset (concat (map tabs gs)) = mset (allTabsSignal st) \<and>
     sum_list (map (\<lambda>g. length (tabs g)) gs) = length (allTabsSignal st) \<and>
     length gs = card (device_id ` set (allTabsSignal st))"
proof -
  let ?xs = "allTabsSignal st"
  let ?ks = "first_seen (map device_id ?xs)"
  let ?mk = "\<lambda>d. \<lparr>GroupedTabs.deviceId = d, tabs = filter (\<lambda>t. device_id t = d) ?xs\<rparr>"
  let ?gs = "map ?mk ?ks"
  have ids: "map GroupedTabs.deviceId ?gs = ?ks"
    by (simp add: comp_def)
  have tabs: "map tabs ?gs = map (\<lambda>d. filter (\<lambda>t. device_id t = d) ?xs) ?ks"
    by (simp add: comp_def)
  have a: "distinct (map GroupedTabs.deviceId ?gs)"
    unfolding ids by simp
  have b: "\<forall>g\<in>set ?gs. tabs g = filter (\<lambda>t. device_id t = GroupedTabs.deviceId g) ?xs"
    by auto
  have c: "\<exists>!g. g \<in> set ?gs \<and> t \<in> set (tabs g)" if "t \<in> set ?xs" for t
  proof (rule ex1I [of _ "?mk (device_id t)"])
    show "?mk (device_id t) \<in> set ?gs \<and> t \<in> set (tabs (?mk (device_id t)))"
      using that by auto
  next
    fix g assume "g \<in> set ?gs \<and> t \<in> set (tabs g)"
    then show "g = ?mk (device_id t)" by auto
  qed
  have d: "mset (concat (map tabs ?gs)) = mset ?xs"
    unfolding tabs by (rule partition_by_key_mset) simp_all
  have "sum_list (map (\<lambda>g. length (tabs g)) ?gs) = length (concat (map tabs ?gs))"
    by (simp add: length_concat comp_def)
  also have "\<dots> = size (mset (concat (map tabs ?gs)))" by simp
  also have "\<dots> = length ?xs" unfolding d by simp
  finally have e: "sum_list (map (\<lambda>g. length (tabs g)) ?gs) = length ?xs" .
  have "length ?ks = card (set ?ks)"
    by (rule distinct_card [symmetric]) simp
  then have f: "length ?gs = card (device_id ` set ?xs)" by simp
  show ?thesis
    using groupedTabs_eq [of st] a ids b c d e f by blast
qed

text \<open>Scenario D of the specification: three rows on two devices.\<close>

theorem groupedTabs_partitions_witness:
  "tab_b1 \<in> set (allTabsSignal example_store) \<and>
   (\<exists>gs. groupedTabs example_store = Inr gs \<and>
      length gs = 2 \<and>
      sum_list (map (\<lambda>g. length (tabs g)) gs) = 3 \<and>
      map GroupedTabs.deviceId gs = [''device-a'', ''device-b''] \<and>
      (\<forall>g\<in>set gs.
         tabs g = filter (\<lambda>t. device_id t = GroupedTabs.deviceId g) [tab_a1, tab_b1, tab_a2]) \<and>
      (\<exists>!g. g \<in> set gs \<and> tab_b1 \<in> set (tabs g)))"
proof -
  have m: "tab_b1 \<in> set (allTabsSignal example_store)"
    by (simp add: example_store_tabs)
  have ids: "map device_id [tab_a1, tab_b1, tab_a2] = [''device-a'', ''device-b'', ''device-a'']"
    by (simp add: tab_a1_def tab_b1_def tab_a2_def)
  have k: "card (device_id ` set (allTabsSignal example_store)) = 2"
    by (simp add: example_store_tabs tab_a1_def tab_b1_def tab_a2_def card_insert_if)
  have o: "first_seen (map device_id (allTabsSignal example_store)) = [''device-a'', ''device-b'']"
    unfolding example_store_tabs ids by (simp add: first_seen_def)
  from groupedTabs_partitions [of example_store] obtain gs where
    "groupedTabs example_store = Inr gs"
    "map GroupedTabs.deviceId gs = first_seen (map device_id (allTabsSignal example_store))"
    "\<forall>g\<in>set gs.
        tabs g = filter (\<lambda>t. device_id t = GroupedTabs.deviceId g) (allTabsSignal example_store)"
    "\<forall>t\<in>set (allTabsSignal example_store). \<exists>!g. g \<in> set gs \<and> t \<in> set (tabs g)"
    "sum_list (map (\<lambda>g. length (tabs g)) gs) = length (allTabsSignal example_store)"
    "length gs = card (device_id ` set (allTabsSignal example_store))"
    by blast
  with m k o show ?thesis
    by (auto simp: example_store_tabs)
qed

section \<open>Initialisation without a user\<close>

text \<open>
  \<^verbatim>\<open>initializePresence\<close> takes the user id as it is given: called with the empty
  string in a browser with working storage it returns normally and publishes a record
  whose \<^verbatim>\<open>userId\<close> is empty.
\<close>

lemma initializePresence_accepts_empty_user:
  "fst (initializePresence example_toISOString 0 (Fulfilled ok_response) []
          (new_PresenceService 0 example_browser)) = None \<and>
   map_option userId
     (tabPresenceSubject
        (snd (initializePresence example_toISOString 0 (Fulfilled ok_response) []
                (new_PresenceService 0 example_browser)))) = Some [] \<and>
   map user_id
     (upserts
        (snd (initializePresence example_toISOString 0 (Fulfilled ok_response) []
                (new_PresenceService 0 example_browser)))) = [[]]"
  by code_simp

text \<open>
  C8 as stated fails: when the current user is null the subscriber of the dashboard
  returns normally and reports nothing. Nothing is written to the console of either
  service and the error signal stays null.
\<close>

theorem no_user_reports_nothing:
  "fst (on_currentUser example_toISOString 0 (Fulfilled ok_response) None example_dashboard) = None \<and>
   console (presenceService
     (snd (on_currentUser example_toISOString 0 (Fulfilled ok_response) None example_dashboard))) = [] \<and>
   store_console (tabsStore
     (snd (on_currentUser example_toISOString 0 (Fulfilled ok_response) None example_dashboard))) = [] \<and>
   errorSignal (tabsStore
     (snd (on_currentUser example_toISOString 0 (Fulfilled ok_response) None example_dashboard))) = None"
  by (simp add: on_currentUser_def example_dashboard_def new_PresenceService_def new_TabsStore_def)

text \<open>
  C8, amended. When no user is present the dashboard does not initialise presence: its
  subscriber calls neither \<^verbatim>\<open>initializePresence\<close> nor \<^verbatim>\<open>initializeTabs\<close> and
  leaves both services as they were, so no presence record is created, no row is handed
  to the shared store, no heartbeat is started, no query is issued and nothing is
  reported. The check is the caller's, on the user object: when a user is present and
  the subscriber returns, the new presence record and the row handed to \<^verbatim>\<open>upsert\<close>
  carry the id of that user as it is, and one heartbeat more is running.
  \<^verbatim>\<open>fetchTabs\<close> refuses an empty user id: it sets the error to
  \<^verbatim>\<open>No user ID provided\<close>, issues no query, and leaves the tabs and the loading flag.
\<close>

theorem no_user_no_presence:
  "on_currentUser fmt seen outcome None app = (None, app) \<and>
   (\<forall>u app'. on_currentUser fmt seen outcome (Some u) app = (None, app') \<longrightarrow>
      (\<exists>p row.
         tabPresenceSubject (presenceService app') = Some p \<and> userId p = ident u \<and>
         upserts (presenceService app') = upserts (presenceService app) @ [row] \<and>
         user_id row = ident u \<and>
         heartbeats (presenceService app') = heartbeats (presenceService app) + 1)) \<and>
   fetchTabs [] fetch_outcome st = st\<lparr>errorSignal := Some ''No user ID provided''\<rparr> \<and>
   selects (fetchTabs [] fetch_outcome st) = selects st \<and>
   allTabsSignal (fetchTabs [] fetch_outcome st) = allTabsSignal st \<and>
   isLoadingSignal (fetchTabs [] fetch_outcome st) = isLoadingSignal st"
proof -
  have a: "on_currentUser fmt seen outcome None app = (None, app)"
    by (simp add: on_currentUser_def)
  have b: "\<exists>p row.
         tabPresenceSubject (presenceService app') = Some p \<and> userId p = ident u \<and>
         upserts (presenceService app') = upserts (presenceService app) @ [row] \<and>
         user_id row = ident u \<and>
         heartbeats (presenceService app') = heartbeats (presenceService app) + 1"
    if r: "on_currentUser fmt seen outcome (Some u) app = (None, app')" for u app'
  proof -
    obtain e ps where i: "initializePresence fmt seen outcome (ident u) (presenceService app) = (e, ps)"
      by force
    with r have e: "e = None" and ps: "presenceService app' = ps"
      by (auto simp: on_currentUser_def Let_def split: option.splits)
    from initializePresence_returns [OF i [unfolded e]] show ?thesis
      unfolding ps by auto
  qed
  have c: "fetchTabs [] fetch_outcome st = st\<lparr>errorSignal := Some ''No user ID provided''\<rparr>"
    by (rule fetchTabs_no_user)
  show ?thesis
    unfolding c using a b by simp
qed

theorem no_user_no_presence_witness:
  "on_currentUser example_toISOString 0 (Fulfilled ok_response) (Some \<lparr>ident = ''user-1''\<rparr>)
     example_dashboard =
   (None, snd (on_currentUser example_toISOString 0 (Fulfilled ok_response)
                 (Some \<lparr>ident = ''user-1''\<rparr>) example_dashboard)) \<and>
   (\<exists>p row.
      tabPresenceSubject (presenceService
        (snd (on_currentUser example_toISOString 0 (Fulfilled ok_response)
                (Some \<lparr>ident = ''user-1''\<rparr>) example_dashboard))) = Some p \<and>
      userId p = ''user-1'' \<and>
      upserts (presenceService
        (snd (on_currentUser example_toISOString 0 (Fulfilled ok_response)
                (Some \<lparr>ident = ''user-1''\<rparr>) example_dashboard))) = [row] \<and>
      user_id row = ''user-1'' \<and>
      heartbeats (presenceService
        (snd (on_currentUser example_toISOString 0 (Fulfilled ok_response)
                (Some \<lparr>ident = ''user-1''\<rparr>) example_dashboard))) = 1) \<and>
   on_currentUser example_toISOString 0 (Fulfilled ok_response) None example_dashboard =
     (None, example_dashboard)"
proof -
  let ?r = "on_currentUser example_toISOString 0 (Fulfilled ok_response)
      (Some \<lparr>ident = ''user-1''\<rparr>) example_dashboard"
  have "fst ?r = None"
    by code_simp
  then have h: "?r = (None, snd ?r)"
    by (simp add: prod_eq_iff)
  have i: "upserts (presenceService example_dashboard) = []"
    "heartbeats (presenceService example_dashboard) = 0"
    by (simp_all add: example_dashboard_def new_PresenceService_def)
  note t = no_user_no_presence [of example_toISOString 0 "Fulfilled ok_response" example_dashboard]
  from t h have "\<exists>p row.
      tabPresenceSubject (presenceService (snd ?r)) = Some p \<and>
      userId p = ident \<lparr>ident = ''user-1''\<rparr> \<and>
      upserts (presenceService (snd ?r)) = upserts (presenceService example_dashboard) @ [row] \<and>
      user_id row = ident \<lparr>ident = ''user-1''\<rparr> \<and>
      heartbeats (presenceService (snd ?r)) = heartbeats (presenceService example_dashboard) + 1"
    by blast
  then have c: "\<exists>p row.
      tabPresenceSubject (presenceService (snd ?r)) = Some p \<and>
      userId p = ''user-1'' \<and>
      upserts (presenceService (snd ?r)) = [row] \<and>
      user_id row = ''user-1'' \<and>
      heartbeats (presenceService (snd ?r)) = 1"
    unfolding i by simp
  from t have d: "on_currentUser example_toISOString 0 (Fulfilled ok_response) None
      example_dashboard = (None, example_dashboard)"
    by blast
  show ?thesis
    by (intro conjI h c d)
qed

section \<open>Identifiers when storage is unavailable\<close>

text \<open>
  C9 as stated fails: with access to storage denied, neither function returns an
  identifier; each throws the \<^verbatim>\<open>SecurityError\<close> of the storage area.
\<close>

theorem storage_denied_throws:
  "fst (getOrCreateDeviceId denied_browser) = Inl SecurityError \<and>
   fst (getOrCreateTabId denied_browser) = Inl SecurityError"
  by (simp add: denied_browser_def getOrCreateDeviceId_def getOrCreateTabId_def getItem_def)

text \<open>
  C9, amended. \<^verbatim>\<open>getOrCreateDeviceId\<close> and \<^verbatim>\<open>getOrCreateTabId\<close> have no fallback
  for a storage area that is unavailable. When access to the area is denied the
  \<^verbatim>\<open>SecurityError\<close> reaches the caller and the browser is left as it was; when the area
  accepts no write and holds no identifier yet, the \<^verbatim>\<open>QuotaExceededError\<close> of
  \<^verbatim>\<open>setItem\<close> reaches the caller. In these two cases, and in no other, no identifier
  is returned. When the area can be read and holds a non-empty identifier, that
  identifier is returned and nothing is written, also when the area accepts no write.
  When the area works and holds no identifier, a fresh identifier is generated, stored and
  returned. When the area works, a non-empty identifier is returned and the area holds it
  afterwards.
\<close>

theorem getOrCreate_ids_by_storage_status:
  "(status (localStorage b) = AccessDenied \<longrightarrow> getOrCreateDeviceId b = (Inl SecurityError, b)) \<and>
   (status (sessionStorage b) = AccessDenied \<longrightarrow> getOrCreateTabId b = (Inl SecurityError, b)) \<and>
   (status (localStorage b) = QuotaExceeded \<and> falsy (items (localStorage b) ''deviceId'') \<longrightarrow>
      fst (getOrCreateDeviceId b) = Inl QuotaExceededError) \<and>
   (status (sessionStorage b) = QuotaExceeded \<and> falsy (items (sessionStorage b) ''tabId'') \<longrightarrow>
      fst (getOrCreateTabId b) = Inl QuotaExceededError) \<and>
   ((\<exists>v. fst (getOrCreateDeviceId b) = Inr v) \<longleftrightarrow>
      \<not> (status (localStorage b) = AccessDenied \<or>
         status (localStorage b) = QuotaExceeded \<and> falsy (items (localStorage b) ''deviceId''))) \<and>
   ((\<exists>v. fst (getOrCreateTabId b) = Inr v) \<longleftrightarrow>
      \<not> (status (sessionStorage b) = AccessDenied \<or>
         status (sessionStorage b) = QuotaExceeded \<and> falsy (items (sessionStorage b) ''tabId''))) \<and>
   (\<forall>v. status (localStorage b) \<noteq> AccessDenied \<and>
        items (localStorage b) ''deviceId'' = Some v \<and> v \<noteq> [] \<longrightarrow>
        getOrCreateDeviceId b = (Inr v, b)) \<and>
   (\<forall>v. status (sessionStorage b) \<noteq> AccessDenied \<and>
        items (sessionStorage b) ''tabId'' = Some v \<and> v \<noteq> [] \<longrightarrow>
        getOrCreateTabId b = (Inr v, b)) \<and>
   (status (localStorage b) = Available \<and> falsy (items (localStorage b) ''deviceId'') \<longrightarrow>
      fst (getOrCreateDeviceId b) = Inr (fst (generateUUID b)) \<and>
      items (localStorage (snd (getOrCreateDeviceId b))) ''deviceId'' = Some (fst (generateUUID b))) \<and>
   (status (sessionStorage b) = Available \<and> falsy (items (sessionStorage b) ''tabId'') \<longrightarrow>
      fst (getOrCreateTabId b) = Inr (fst (generateUUID b)) \<and>
      items (sessionStorage (snd (getOrCreateTabId b))) ''tabId'' = Some (fst (generateUUID b))) \<and>
   (status (localStorage b) = Available \<longrightarrow>
      (\<exists>v. fst (getOrCreateDeviceId b) = Inr v \<and> v \<noteq> [] \<and>
           items (localStorage (snd (getOrCreateDeviceId b))) ''deviceId'' = Some v)) \<and>
   (status (sessionStorage b) = Available \<longrightarrow>
      (\<exists>v. fst (getOrCreateTabId b) = Inr v \<and> v \<noteq> [] \<and>
           items (sessionStorage (snd (getOrCreateTabId b))) ''tabId'' = Some v))"
  by (intro conjI impI allI getOrCreateDeviceId_returns_iff getOrCreateTabId_returns_iff;
      (elim conjE)?;
      simp add: getOrCreateDeviceId_denied getOrCreateTabId_denied
        getOrCreateDeviceId_quota getOrCreateTabId_quota
        getOrCreateDeviceId_stored getOrCreateTabId_stored
        getOrCreateDeviceId_fresh getOrCreateTabId_fresh
        getOrCreateDeviceId_available getOrCreateTabId_available)

theorem getOrCreate_ids_by_storage_status_witness:
  "status (localStorage denied_browser) = AccessDenied \<and>
   status (sessionStorage denied_browser) = AccessDenied \<and>
   getOrCreateDeviceId denied_browser = (Inl SecurityError, denied_browser) \<and>
   getOrCreateTabId denied_browser = (Inl SecurityError, denied_browser) \<and>
   status (localStorage full_browser) = QuotaExceeded \<and>
   falsy (items (localStorage full_browser) ''deviceId'') \<and>
   status (sessionStorage full_browser) = QuotaExceeded \<and>
   falsy (items (sessionStorage full_browser) ''tabId'') \<and>
   fst (getOrCreateDeviceId full_browser) = Inl QuotaExceededError \<and>
   fst (getOrCreateTabId full_browser) = Inl QuotaExceededError \<and>
   status (localStorage revisited_browser) \<noteq> AccessDenied \<and>
   items (localStorage revisited_browser) ''deviceId'' =
     Some ''01234567-89ab-4cde-b012-3456789abcde'' \<and>
   status (sessionStorage revisited_browser) \<noteq> AccessDenied \<and>
   items (sessionStorage revisited_browser) ''tabId'' =
     Some ''f0123456-789a-4bcd-af01-23456789abcd'' \<and>
   getOrCreateDeviceId revisited_browser =
     (Inr ''01234567-89ab-4cde-b012-3456789abcde'', revisited_browser) \<and>
   getOrCreateTabId revisited_browser =
     (Inr ''f0123456-789a-4bcd-af01-23456789abcd'', revisited_browser) \<and>
   status (localStorage example_browser) = Available \<and>
   falsy (items (localStorage example_browser) ''deviceId'') \<and>
   status (sessionStorage example_browser) = Available \<and>
   falsy (items (sessionStorage example_browser) ''tabId'') \<and>
   fst (getOrCreateDeviceId example_browser) = Inr (fst (generateUUID example_browser)) \<and>
   fst (getOrCreateTabId example_browser) = Inr (fst (generateUUID example_browser)) \<and>
   (\<exists>v. fst (getOrCreateDeviceId example_browser) = Inr v \<and> v \<noteq> [] \<and>
        items (localStorage (snd (getOrCreateDeviceId example_browser))) ''deviceId'' = Some v) \<and>
   (\<exists>v. fst (getOrCreateTabId example_browser) = Inr v \<and> v \<noteq> [] \<and>
        items (sessionStorage (snd (getOrCreateTabId example_browser))) ''tabId'' = Some v)"
proof -
  have d: "status (localStorage denied_browser) = AccessDenied"
    "status (sessionStorage denied_browser) = AccessDenied"
    by (simp_all add: denied_browser_def)
  have q: "status (localStorage full_browser) = QuotaExceeded"
    "falsy (items (localStorage full_browser) ''deviceId'')"
    "status (sessionStorage full_browser) = QuotaExceeded"
    "falsy (items (sessionStorage full_browser) ''tabId'')"
    by (simp_all add: full_browser_def falsy_def)
  have v: "status (localStorage revisited_browser) \<noteq> AccessDenied"
    "items (localStorage revisited_browser) ''deviceId'' =
       Some ''01234567-89ab-4cde-b012-3456789abcde''"
    "status (sessionStorage revisited_browser) \<noteq> AccessDenied"
    "items (sessionStorage revisited_browser) ''tabId'' =
       Some ''f0123456-789a-4bcd-af01-23456789abcd''"
    by (simp_all add: revisited_browser_def)
  have a: "status (localStorage example_browser) = Available"
    "falsy (items (localStorage example_browser) ''deviceId'')"
    "status (sessionStorage example_browser) = Available"
    "falsy (items (sessionStorage example_browser) ''tabId'')"
    by (simp_all add: example_browser_def falsy_def)
  note t1 = getOrCreate_ids_by_storage_status [of denied_browser]
  note t2 = getOrCreate_ids_by_storage_status [of full_browser]
  note t3 = getOrCreate_ids_by_storage_status [of example_browser]
  note t4 = getOrCreate_ids_by_storage_status [of revisited_browser]
  have r1: "getOrCreateDeviceId denied_browser = (Inl SecurityError, denied_browser)"
    "getOrCreateTabId denied_browser = (Inl SecurityError, denied_browser)"
    using t1 d by simp_all
  have r2: "fst (getOrCreateDeviceId full_browser) = Inl QuotaExceededError"
    "fst (getOrCreateTabId full_browser) = Inl QuotaExceededError"
    using t2 q by simp_all
  have r4: "getOrCreateDeviceId revisited_browser =
      (Inr ''01234567-89ab-4cde-b012-3456789abcde'', revisited_browser)"
    "getOrCreateTabId revisited_browser =
      (Inr ''f0123456-789a-4bcd-af01-23456789abcd'', revisited_browser)"
    using t4 v by simp_all
  have r5: "fst (getOrCreateDeviceId example_browser) = Inr (fst (generateUUID example_browser))"
    "fst (getOrCreateTabId example_browser) = Inr (fst (generateUUID example_browser))"
    using t3 a by simp_all
  have r3: "\<exists>v. fst (getOrCreateDeviceId example_browser) = Inr v \<and> v \<noteq> [] \<and>
        items (localStorage (snd (getOrCreateDeviceId example_browser))) ''deviceId'' = Some v"
    "\<exists>v. fst (getOrCreateTabId example_browser) = Inr v \<and> v \<noteq> [] \<and>
        items (sessionStorage (snd (getOrCreateTabId example_browser))) ''tabId'' = Some v"
    using t3 a(1,3) by simp_all
  show ?thesis
    by (intro conjI d q v a r1 r2 r4 r5 r3)
qed

end
